theory Spec2Isabelle
  imports Main "HOL-Library.Word"
begin

unbundle bit_operations_syntax

section \<open>Go values shared by the packages\<close>

type_synonym byte = "8 word"
type_synonym uint16 = "16 word"

text \<open>
  A Go function either returns or panics. \<open>Panics\<close> stands for a run-time panic
  (slice bounds out of range, reflection on a missing field); \<open>Returns v\<close> for a normal
  return of \<open>v\<close>, which for a fallible function is itself a sum \<open>go_error + 'a\<close>.
\<close>

datatype 'a run = Panics | Returns 'a

text \<open>
  Go errors. \<open>ErrorsNew msg\<close> is \<open>errors.New(msg)\<close> with the message of the source;
  the three \<open>fmt.Errorf\<close> errors of the SOCKS5 handler carry the bytes their message
  prints; \<open>Errno n\<close> is a \<open>syscall.Errno\<close>; \<open>EOF\<close> and \<open>ErrUnexpectedEOF\<close> are
  the two errors of package \<open>io\<close>.
\<close>

datatype go_error =
    ErrorsNew string
  | Errno nat
  | EOF
  | ErrUnexpectedEOF
  | ErrProtoInvalid byte byte
  | ErrAuthResponse byte
  | ErrConnectResponse byte byte

text \<open>
  The implementations of \<open>net.Addr\<close> that the code distinguishes. \<open>DomainAddr\<close> is
  declared outside the files at hand; its uses in \<open>Tunnel\<close> show the fields \<open>Domain\<close>
  and \<open>Port\<close>. An IP address is \<open>net.IP\<close>, a byte slice of any length; a port is a Go
  \<open>int\<close>.
\<close>

datatype net_addr =
    TCPAddr "byte list" int
  | UDPAddr "byte list" int
  | DomainAddr string int

subsection \<open>Byte slices\<close>

text \<open>
  A Go slice is a window on a backing array: \<open>elems\<close> are the \<open>len\<close> visible bytes,
  \<open>spare\<close> the bytes of the backing array between \<open>len\<close> and \<open>cap\<close>. A slice
  expression \<open>s[lo:hi]\<close> on a slice is checked against the capacity, not the length, and
  \<open>s[lo:]\<close> is \<open>s[lo:len(s)]\<close>; out of range it panics.
\<close>

record goslice =
  elems :: "byte list"
  spare :: "byte list"

definition slice :: "goslice \<Rightarrow> nat \<Rightarrow> nat \<Rightarrow> goslice run" where
  "slice s lo hi =
     (if lo \<le> hi \<and> hi \<le> length (elems s) + length (spare s)
      then Returns \<lparr>elems = take (hi - lo) (drop lo (elems s @ spare s)),
                    spare = drop hi (elems s @ spare s)\<rparr>
      else Panics)"

definition slice_from :: "goslice \<Rightarrow> nat \<Rightarrow> goslice run" where
  "slice_from s lo = slice s lo (length (elems s))"

text \<open>\<open>binary.BigEndian.Uint16\<close> and \<open>binary.BigEndian.PutUint16\<close> on a fresh 2-byte slice.\<close>

definition Uint16 :: "byte list \<Rightarrow> uint16 run" where
  "Uint16 b =
     (case b of
        b0 # b1 # _ \<Rightarrow> Returns (ucast b1 OR push_bit 8 (ucast b0))
      | _ \<Rightarrow> Panics)"

definition PutUint16 :: "uint16 \<Rightarrow> byte list" where
  "PutUint16 v = [ucast (drop_bit 8 v), ucast v]"

section \<open>Go's \<open>net.IP\<close>\<close>

text \<open>
  The three functions of Go's package \<open>net\<close> that the code calls on an IP address.
  \<open>To4\<close> and \<open>To16\<close> return \<open>nil\<close> (here \<open>None\<close>) for an address that is
  neither 4 nor 16 bytes long; \<open>To4\<close> also unwraps the 16-byte IPv4-mapped form
  \<open>::ffff:a.b.c.d\<close>, and \<open>IPv4\<close> builds that form.
\<close>

definition v4InV6Prefix :: "byte list" where
  "v4InV6Prefix = [0, 0, 0, 0, 0, 0, 0, 0, 0, 0, 0xff, 0xff]"

definition IPv4 :: "byte \<Rightarrow> byte \<Rightarrow> byte \<Rightarrow> byte \<Rightarrow> byte list" where
  "IPv4 a b c d = v4InV6Prefix @ [a, b, c, d]"

definition To4 :: "byte list \<Rightarrow> byte list option" where
  "To4 ip =
     (if length ip = 4 then Some ip
      else if length ip = 16 \<and> take 12 ip = v4InV6Prefix then Some (drop 12 ip)
      else None)"

definition To16 :: "byte list \<Rightarrow> byte list option" where
  "To16 ip =
     (if length ip = 4 then Some (IPv4 (ip ! 0) (ip ! 1) (ip ! 2) (ip ! 3))
      else if length ip = 16 then Some ip
      else None)"

section \<open>Package TProxy: the SOCKS5 handler\<close>

subsection \<open>The upstream connection\<close>

text \<open>
  The connection to the proxy server is scripted: \<open>incoming\<close> is what the server
  sends, segment by segment (\<open>Data\<close>) with the read errors in between (\<open>Fail\<close>);
  \<open>wfails\<close> gives the outcome of the successive calls of \<open>Write\<close> (\<open>None\<close> is
  success, an exhausted list too); \<open>wlog\<close> records every buffer handed to \<open>Write\<close>,
  in order.
\<close>

datatype rd_event = Data "byte list" | Fail go_error

record conn =
  incoming :: "rd_event list"
  wfails :: "go_error option list"
  wlog :: "byte list list"

text \<open>
  \<open>Read c buf\<close> is one call \<open>rConn.Read(buf)\<close>: it copies the head segment into the
  front of \<open>buf\<close>, as much as fits, and leaves the rest of the segment for the next call.
  It returns the count and the buffer after the call. An exhausted script is a closed
  connection: \<open>io.EOF\<close>.
\<close>

definition Read :: "conn \<Rightarrow> byte list \<Rightarrow> (go_error + nat \<times> byte list) \<times> conn" where
  "Read c buf =
     (case incoming c of
        [] \<Rightarrow> (Inl EOF, c)
      | Fail e # es \<Rightarrow> (Inl e, c\<lparr>incoming := es\<rparr>)
      | Data bs # es \<Rightarrow>
          (let n = min (length bs) (length buf)
           in (Inr (n, take n bs @ drop n buf),
               c\<lparr>incoming := (if n < length bs then Data (drop n bs) # es else es)\<rparr>)))"

definition Write :: "conn \<Rightarrow> byte list \<Rightarrow> go_error option \<times> conn" where
  "Write c buf =
     (case wfails c of
        [] \<Rightarrow> (None, c\<lparr>wlog := wlog c @ [buf]\<rparr>)
      | r # rs \<Rightarrow> (r, c\<lparr>wfails := rs, wlog := wlog c @ [buf]\<rparr>))"

text \<open>
  \<open>io.ReadFull(rConn, buf)\<close>, that is the loop of \<open>io.ReadAtLeast\<close> with
  \<open>min = len(buf)\<close>: \<open>n\<close> counts the bytes read so far, each round reads into
  \<open>buf[n:]\<close>, and an \<open>EOF\<close> after some bytes becomes \<open>ErrUnexpectedEOF\<close>.
\<close>

fun ev_weight :: "rd_event \<Rightarrow> nat" where
  "ev_weight (Data bs) = Suc (length bs)"
| "ev_weight (Fail e) = 1"

definition pending :: "conn \<Rightarrow> nat" where
  "pending c = sum_list (map ev_weight (incoming c))"

function ReadFull :: "conn \<Rightarrow> byte list \<Rightarrow> nat \<Rightarrow> (go_error + byte list) \<times> conn" where
  "ReadFull c buf n =
     (if n < length buf then
        (case Read c (drop n buf) of
           (Inl e, c') \<Rightarrow> (Inl (if 0 < n \<and> e = EOF then ErrUnexpectedEOF else e), c')
         | (Inr (nn, w), c') \<Rightarrow> ReadFull c' (take n buf @ w) (n + nn))
      else (Inr buf, c))"
  by pat_completeness auto
termination
proof (relation "measure (\<lambda>(c, buf, n). pending c)")
  show "wf (measure (\<lambda>(c, buf, n). pending c))"
    by simp
next
  fix c :: conn and buf :: "byte list" and n :: nat and x c' y nn w
  assume lt: "n < length buf"
    and rd: "(x, c') = Read c (drop n buf)"
    and ok: "x = Inr y" "(nn, w) = y"
  show "((c', take n buf @ w, n + nn), (c, buf, n)) \<in> measure (\<lambda>(c, buf, n). pending c)"
  proof (cases "incoming c")
    case Nil
    with rd ok show ?thesis
      by (simp add: Read_def)
  next
    case (Cons ev es)
    show ?thesis
    proof (cases ev)
      case (Fail e)
      with Cons rd ok show ?thesis
        by (simp add: Read_def)
    next
      case (Data bs)
      with Cons rd ok lt show ?thesis
        by (auto simp: Read_def pending_def Let_def min_def split: if_splits)
    qed
  qed
qed

declare ReadFull.simps [simp del]

subsection \<open>\<open>Tunnel\<close>\<close>

text \<open>
  The handler's fields that \<open>Tunnel\<close> reads (\<open>handler.rAddr\<close>, and the user
  name and password of \<open>handler.proxy\<close>) and the one it writes (\<open>handler.rConn\<close>,
  set on success only).
\<close>

record handler =
  handler_rAddr :: net_addr
  UserName :: string
  Password :: string
  handler_rConn :: "conn option"

text \<open>
  The type switch on \<open>handler.rAddr\<close>: it yields \<open>port\<close>, \<open>ip\<close> and
  \<open>dominname\<close>. The case of \<open>*net.TCPAddr\<close> assigns \<open>ip\<close> only, so \<open>port\<close>
  keeps its zero value and \<open>dominname\<close> stays empty; the case of \<open>*DomainAddr\<close>
  converts the port with \<open>uint16(addr.Port)\<close>.
\<close>

definition target :: "net_addr \<Rightarrow> go_error + uint16 \<times> byte list \<times> string" where
  "target a =
     (case a of
        TCPAddr addr_IP addr_Port \<Rightarrow> Inr (0, addr_IP, [])
      | DomainAddr addr_Domain addr_Port \<Rightarrow>
          Inr (word_of_int addr_Port, IPv4 0x00 0x00 0x00 0x01, addr_Domain)
      | UDPAddr addr_IP addr_Port \<Rightarrow> Inl (ErrorsNew ''type is not tcp''))"

text \<open>\<open>[]byte(s)\<close> of a string, and \<open>byte(len(s))\<close>, which keeps the low 8 bits.\<close>

definition bytes :: "string \<Rightarrow> byte list" where
  "bytes s = map of_char s"

definition byte_len :: "string \<Rightarrow> byte" where
  "byte_len s = of_nat (length s)"

text \<open>The greeting: one method (no-auth), or two when user name and password are both set.\<close>

definition greeting :: "string \<Rightarrow> string \<Rightarrow> byte list" where
  "greeting user password =
     (if user \<noteq> [] \<and> password \<noteq> [] then [5, 2, 0] @ [2] else [5, 1, 0])"

text \<open>
  Greeting and method selection: write the greeting, read the reply into the same buffer
  with one \<open>Read\<close>, check version and method. The result is the selected method
  \<open>buf[1]\<close>.
\<close>

definition handshake :: "conn \<Rightarrow> string \<Rightarrow> string \<Rightarrow> (go_error + byte) \<times> conn" where
  "handshake c user password =
     (let buf = greeting user password in
      case Write c buf of
        (Some err, c1) \<Rightarrow> (Inl err, c1)
      | (None, c1) \<Rightarrow>
          (case Read c1 buf of
             (Inl err, c2) \<Rightarrow> (Inl err, c2)
           | (Inr (n, buf'), c2) \<Rightarrow>
               (if buf' ! 0 \<noteq> 5 \<or> (buf' ! 1 \<noteq> 0 \<and> buf' ! 1 \<noteq> 2)
                then (Inl (ErrProtoInvalid (buf' ! 0) (buf' ! 1)), c2)
                else (Inr (buf' ! 1), c2))))"

text \<open>The user name and password request, and the check of the first byte of its reply.\<close>

definition auth_request :: "string \<Rightarrow> string \<Rightarrow> byte list" where
  "auth_request user password =
     [1] @ [byte_len user] @ bytes user @ [byte_len password] @ bytes password"

definition authenticate :: "conn \<Rightarrow> string \<Rightarrow> string \<Rightarrow> go_error option \<times> conn" where
  "authenticate c user password =
     (case Write c (auth_request user password) of
        (Some err, c1) \<Rightarrow> (Some err, c1)
      | (None, c1) \<Rightarrow>
          (case Read c1 (replicate 32 0) of
             (Inl err, c2) \<Rightarrow> (Some err, c2)
           | (Inr (n, buf), c2) \<Rightarrow>
               (if buf ! 0 \<noteq> 5 \<and> buf ! 0 \<noteq> 1
                then (Some (ErrAuthResponse (buf ! 0)), c2)
                else (None, c2))))"

text \<open>
  The CONNECT request: header, address by type, port. A literal address is written as
  IPv4 when it is stored in 4 bytes, as IPv6 when \<open>To16\<close> accepts it; a name goes with
  its length in one byte. Port 0 becomes 80.
\<close>

definition connect_request :: "byte list \<Rightarrow> string \<Rightarrow> uint16 \<Rightarrow> go_error + byte list" where
  "connect_request ip dominname port =
     (let portByte = PutUint16 (if port = 0 then 80 else port) in
      if dominname = [] then
        (case (if length ip = 4 then To4 ip else None) of
           Some ip4 \<Rightarrow> Inr ([5, 1, 0, 1] @ ip4 @ portByte)
         | None \<Rightarrow>
             (case To16 ip of
                Some ip16 \<Rightarrow> Inr ([5, 1, 0, 4] @ ip16 @ portByte)
              | None \<Rightarrow> Inl (ErrorsNew ''ip invalid'')))
      else if 255 < length dominname
        then Inl (ErrorsNew ''domain name out of max length'')
        else Inr ([5, 1, 0, 3] @ [byte_len dominname] @ bytes dominname @ portByte))"

text \<open>
  \<open>io.ReadFull(rConn, buf[0:k])\<close>: the \<open>k\<close> bytes read replace the front of \<open>buf\<close>.
\<close>

definition read_into :: "conn \<Rightarrow> byte list \<Rightarrow> nat \<Rightarrow> (go_error + byte list) \<times> conn" where
  "read_into c buf k =
     (case ReadFull c (take k buf) 0 of
        (Inl err, c') \<Rightarrow> (Inl err, c')
      | (Inr w, c') \<Rightarrow> (Inr (w @ drop k buf), c'))"

text \<open>
  The reply to CONNECT, read into the request's buffer: version, code and reserved byte,
  the address type, the address (its length read first for a name; the buffer is
  replaced when it is too short for it), the port.
\<close>

definition reply_addr :: "conn \<Rightarrow> byte list \<Rightarrow> nat \<Rightarrow> go_error option \<times> conn" where
  "reply_addr c buf addrLen =
     (let buf1 = (if length buf < addrLen then replicate addrLen 0 else buf) in
      case read_into c buf1 addrLen of
        (Inl err, c1) \<Rightarrow> (Some err, c1)
      | (Inr buf2, c1) \<Rightarrow>
          (case read_into c1 buf2 2 of
             (Inl err, c2) \<Rightarrow> (Some err, c2)
           | (Inr buf3, c2) \<Rightarrow> (None, c2)))"

definition connect_reply :: "conn \<Rightarrow> byte list \<Rightarrow> go_error option \<times> conn" where
  "connect_reply c buf =
     (case read_into c buf 3 of
        (Inl err, c1) \<Rightarrow> (Some err, c1)
      | (Inr buf1, c1) \<Rightarrow>
          (if buf1 ! 0 \<noteq> 5 \<or> buf1 ! 1 \<noteq> 0
           then (Some (ErrConnectResponse (buf1 ! 0) (buf1 ! 1)), c1)
           else
             (case read_into c1 buf1 1 of
                (Inl err, c2) \<Rightarrow> (Some err, c2)
              | (Inr buf2, c2) \<Rightarrow>
                  (if buf2 ! 0 = 1 then reply_addr c2 buf2 4
                   else if buf2 ! 0 = 4 then reply_addr c2 buf2 16
                   else if buf2 ! 0 = 3 then
                     (case read_into c2 buf2 1 of
                        (Inl err, c3) \<Rightarrow> (Some err, c3)
                      | (Inr buf3, c3) \<Rightarrow> reply_addr c3 buf3 (unat (buf3 ! 0)))
                   else (Some (ErrorsNew ''invalid ip''), c2)))))"

text \<open>The CONNECT stage: build the request, write it, read the reply.\<close>

definition connect :: "conn \<Rightarrow> byte list \<Rightarrow> string \<Rightarrow> uint16 \<Rightarrow> go_error option \<times> conn" where
  "connect c ip dominname port =
     (case connect_request ip dominname port of
        Inl err \<Rightarrow> (Some err, c)
      | Inr buf \<Rightarrow>
          (case Write c buf of
             (Some err, c1) \<Rightarrow> (Some err, c1)
           | (None, c1) \<Rightarrow> connect_reply c1 buf))"

text \<open>
  Everything \<open>Tunnel\<close> does on the dialled connection: the type switch, the handshake,
  the authentication when the server selected method 2, the CONNECT stage. The result is
  the error (\<open>None\<close> for \<open>nil\<close>) and the connection after the last call on it.
\<close>

definition negotiate :: "conn \<Rightarrow> handler \<Rightarrow> go_error option \<times> conn" where
  "negotiate c h =
     (case target (handler_rAddr h) of
        Inl err \<Rightarrow> (Some err, c)
      | Inr (port, ip, dominname) \<Rightarrow>
          (case handshake c (UserName h) (Password h) of
             (Inl err, c1) \<Rightarrow> (Some err, c1)
           | (Inr method, c1) \<Rightarrow>
               (if method = 2 then
                  (case authenticate c1 (UserName h) (Password h) of
                     (Some err, c2) \<Rightarrow> (Some err, c2)
                   | (None, c2) \<Rightarrow> connect c2 ip dominname port)
                else connect c1 ip dominname port)))"

text \<open>
  \<open>Tunnel\<close>. The result of \<open>handler.dialProxy()\<close> is the parameter \<open>dial\<close>. The
  handler keeps the connection only when the negotiation returned \<open>nil\<close>.
\<close>

definition Tunnel :: "go_error + conn \<Rightarrow> handler \<Rightarrow> go_error option \<times> handler" where
  "Tunnel dial h =
     (case dial of
        Inl err \<Rightarrow> (Some err, h)
      | Inr c \<Rightarrow>
          (case negotiate c h of
             (Some err, c') \<Rightarrow> (Some err, h)
           | (None, c') \<Rightarrow> (None, h\<lparr>handler_rConn := Some c'\<rparr>)))"

section \<open>Package Com: recovery of the original destination\<close>

text \<open>The constants of Go's package \<open>syscall\<close> on Linux that the code names.\<close>

definition AF_INET :: int where "AF_INET = 0x2"
definition AF_INET6 :: int where "AF_INET6 = 0xa"
definition SOCK_STREAM :: int where "SOCK_STREAM = 0x1"
definition SOCK_DGRAM :: int where "SOCK_DGRAM = 0x2"
definition SOL_SOCKET :: int where "SOL_SOCKET = 0x1"
definition SO_TYPE :: int where "SO_TYPE = 0x3"
definition SO_REUSEADDR :: int where "SO_REUSEADDR = 0x2"
definition SOL_IP :: int where "SOL_IP = 0x0"
definition SOL_IPV6 :: int where "SOL_IPV6 = 0x29"
definition IP_TRANSPARENT :: int where "IP_TRANSPARENT = 0x13"
definition IP_RECVORIGDSTADDR :: int where "IP_RECVORIGDSTADDR = 0x14"

text \<open>
  A parsed control message (\<open>syscall.SocketControlMessage\<close>): level and type of its
  header, and its data, a slice of the control buffer. \<open>BaseAddr\<close> is the result.
\<close>

record SocketControlMessage =
  Header_Level :: int
  Header_Type :: int
  msg_Data :: goslice

record BaseAddr =
  IP :: "byte list"
  Port :: int

text \<open>
  The composite literal \<open>&BaseAddr{IP: msg.Data[lo:hi], Port:
  int(binary.BigEndian.Uint16(msg.Data[2:4]))}\<close>, its fields evaluated in order.
\<close>

definition origdst :: "goslice \<Rightarrow> nat \<Rightarrow> nat \<Rightarrow> BaseAddr run" where
  "origdst d lo hi =
     (case slice d lo hi of
        Panics \<Rightarrow> Panics
      | Returns ip \<Rightarrow>
          (case slice d 2 4 of
             Panics \<Rightarrow> Panics
           | Returns pb \<Rightarrow>
               (case Uint16 (elems pb) of
                  Panics \<Rightarrow> Panics
                | Returns port \<Rightarrow> Returns \<lparr>IP = elems ip, Port = uint port\<rparr>)))"

text \<open>
  The loop over the parsed messages; \<open>addr\<close> is the variable of the source, \<open>nil\<close>
  until a message matches, and a later match replaces an earlier one.
\<close>

fun scan :: "SocketControlMessage list \<Rightarrow> BaseAddr option \<Rightarrow> BaseAddr option run" where
  "scan [] addr = Returns addr"
| "scan (msg # msgSl) addr =
     (if Header_Level msg = SOL_IP \<and> Header_Type msg = IP_RECVORIGDSTADDR then
        (case origdst (msg_Data msg) 4 8 of
           Panics \<Rightarrow> Panics
         | Returns a \<Rightarrow> scan msgSl (Some a))
      else if Header_Level msg = SOL_IPV6 \<and> Header_Type msg = IP_RECVORIGDSTADDR then
        (case origdst (msg_Data msg) 8 24 of
           Panics \<Rightarrow> Panics
         | Returns a \<Rightarrow> scan msgSl (Some a))
      else scan msgSl addr)"

text \<open>
  \<open>ParseRemoteAddrFromMsgHdr\<close>. \<open>syscall.ParseSocketControlMessage\<close> belongs to
  Go's library: it is the parameter \<open>parse\<close>. A \<open>nil\<close> buffer is \<open>None\<close>. The
  function returns the pair \<open>(addr, err)\<close>.
\<close>

definition ParseRemoteAddrFromMsgHdr ::
  "(goslice \<Rightarrow> go_error + SocketControlMessage list) \<Rightarrow> goslice option
     \<Rightarrow> (BaseAddr option \<times> go_error option) run" where
  "ParseRemoteAddrFromMsgHdr parse buf =
     (case buf of
        None \<Rightarrow> Returns (None, Some (ErrorsNew ''parse buf is nil''))
      | Some b \<Rightarrow>
          (case parse b of
             Inl err \<Rightarrow> Returns (None, Some err)
           | Inr msgSl \<Rightarrow>
               (case scan msgSl None of
                  Panics \<Rightarrow> Panics
                | Returns None \<Rightarrow>
                    Returns (None, Some (ErrorsNew ''sol_ip type is not found int msg_hdr''))
                | Returns (Some a) \<Rightarrow> Returns (Some a, None))))"

section \<open>Package Com: the transparent dialer\<close>

text \<open>
  The system calls are an oracle: each field of \<open>kernel\<close> answers one call from its
  arguments, with the descriptor or \<open>nil\<close> (\<open>Inr\<close>, \<open>None\<close>) or with the number
  of the error, which the code receives as a \<open>syscall.Errno\<close>. \<open>FileConn\<close> stands
  for \<open>net.FileConn\<close> on the file of a descriptor: it yields the descriptor of the new
  connection, and its errors are the failed system call's as well.
\<close>

datatype Sockaddr =
    SockaddrInet4 int "byte list"
  | SockaddrInet6 int "byte list"

record kernel =
  Socket :: "int \<Rightarrow> int \<Rightarrow> int \<Rightarrow> nat + int"
  GetsockoptInt :: "int \<Rightarrow> int \<Rightarrow> int \<Rightarrow> nat + int"
  SetsockoptInt :: "int \<Rightarrow> int \<Rightarrow> int \<Rightarrow> int \<Rightarrow> nat option"
  Bind :: "int \<Rightarrow> Sockaddr \<Rightarrow> nat option"
  Connect :: "int \<Rightarrow> Sockaddr \<Rightarrow> nat option"
  FileConn :: "int \<Rightarrow> nat + int"

definition SetSockOptTrn :: "kernel \<Rightarrow> int \<Rightarrow> go_error option" where
  "SetSockOptTrn K fd =
     (case GetsockoptInt K fd SOL_SOCKET SO_TYPE of
        Inl err \<Rightarrow> Some (Errno err)
      | Inr soTyp \<Rightarrow>
          (if soTyp \<noteq> SOCK_STREAM \<and> soTyp \<noteq> SOCK_DGRAM
           then Some (ErrorsNew ''sock type is not tcp and udp'')
           else
             (case SetsockoptInt K fd SOL_SOCKET SO_REUSEADDR 1 of
                Some err \<Rightarrow> Some (Errno err)
              | None \<Rightarrow>
                  (case SetsockoptInt K fd SOL_IP IP_TRANSPARENT 1 of
                     Some err \<Rightarrow> Some (Errno err)
                   | None \<Rightarrow>
                       (case SetsockoptInt K fd SOL_IP IP_RECVORIGDSTADDR 1 of
                          Some err \<Rightarrow> Some (Errno err)
                        | None \<Rightarrow> None)))))"

text \<open>
  Reflection on an address: its dynamic type, and \<open>FieldByName("IP").Bytes()\<close>, which
  panics on a struct with no such field.
\<close>

datatype go_type = PtrTCPAddr | PtrUDPAddr | PtrDomainAddr

fun TypeOf :: "net_addr \<Rightarrow> go_type" where
  "TypeOf (TCPAddr addr_IP addr_Port) = PtrTCPAddr"
| "TypeOf (UDPAddr addr_IP addr_Port) = PtrUDPAddr"
| "TypeOf (DomainAddr addr_Domain addr_Port) = PtrDomainAddr"

fun field_IP :: "net_addr \<Rightarrow> byte list run" where
  "field_IP (TCPAddr addr_IP addr_Port) = Returns addr_IP"
| "field_IP (UDPAddr addr_IP addr_Port) = Returns addr_IP"
| "field_IP (DomainAddr addr_Domain addr_Port) = Panics"

text \<open>
  \<open>convertAddrToSockAddr\<close>: the two pointer types of package \<open>net\<close> convert to each
  other, \<open>*DomainAddr\<close> to neither. Port 0 becomes 80.
\<close>

definition sockaddr_of :: "byte list \<Rightarrow> int \<Rightarrow> go_error + Sockaddr" where
  "sockaddr_of ip port0 =
     (let port = (if port0 = 0 then 80 else port0)
      in case To4 ip of
           Some ip4 \<Rightarrow> Inr (SockaddrInet4 port ip4)
         | None \<Rightarrow>
             (case To16 ip of
                Some ip16 \<Rightarrow> Inr (SockaddrInet6 port ip16)
              | None \<Rightarrow> Inl (ErrorsNew ''ip is not ipv4 or ipv6'')))"

fun convertAddrToSockAddr :: "net_addr \<Rightarrow> go_error + Sockaddr" where
  "convertAddrToSockAddr (TCPAddr addr_IP addr_Port) = sockaddr_of addr_IP addr_Port"
| "convertAddrToSockAddr (UDPAddr addr_IP addr_Port) = sockaddr_of addr_IP addr_Port"
| "convertAddrToSockAddr (DomainAddr addr_Domain addr_Port) =
     Inl (ErrorsNew ''addr typ is not tcp addr or udp addr'')"

text \<open>
  \<open>MegaDial\<close>, on the table of open descriptors: a successful \<open>syscall.Socket\<close> and a
  successful \<open>net.FileConn\<close> each open one; the function has no call that closes one.
  \<open>local_domain\<close> is the choice of the socket's family, from the local address;
  \<open>dial_fd\<close> is the part of the function after the socket is created. \<open>os.NewFile\<close>
  returns \<open>nil\<close> for a negative descriptor only.
\<close>

definition sock_typ :: "string \<Rightarrow> int" where
  "sock_typ network =
     (if network = ''tcp'' then SOCK_STREAM
      else if network = ''udp'' then SOCK_DGRAM
      else 0)"

definition local_domain :: "byte list \<Rightarrow> int option" where
  "local_domain ip =
     (if To4 ip \<noteq> None then Some AF_INET
      else if To16 ip \<noteq> None then Some AF_INET6
      else None)"

definition dial_fd ::
  "kernel \<Rightarrow> net_addr \<Rightarrow> net_addr \<Rightarrow> int \<Rightarrow> int set \<Rightarrow> (go_error + int) \<times> int set" where
  "dial_fd K lAddr rAddr fd fds =
     (case SetSockOptTrn K fd of
        Some err \<Rightarrow> (Inl err, fds)
      | None \<Rightarrow>
          (case convertAddrToSockAddr lAddr of
             Inl err \<Rightarrow> (Inl err, fds)
           | Inr lSockAddr \<Rightarrow>
               (case convertAddrToSockAddr rAddr of
                  Inl err \<Rightarrow> (Inl err, fds)
                | Inr rSockAddr \<Rightarrow>
                    (case Bind K fd lSockAddr of
                       Some err \<Rightarrow> (Inl (Errno err), fds)
                     | None \<Rightarrow>
                         (case Connect K fd rSockAddr of
                            Some err \<Rightarrow> (Inl (Errno err), fds)
                          | None \<Rightarrow>
                              (if fd < 0 then (Inl (ErrorsNew ''create new file is nil''), fds)
                               else
                                 (case FileConn K fd of
                                    Inl err \<Rightarrow> (Inl (Errno err), fds)
                                  | Inr conn \<Rightarrow> (Inr conn, insert conn fds))))))))"

definition MegaDial ::
  "kernel \<Rightarrow> string \<Rightarrow> net_addr \<Rightarrow> net_addr \<Rightarrow> int set \<Rightarrow> (go_error + int) run \<times> int set" where
  "MegaDial K network lAddr rAddr fds =
     (if TypeOf lAddr \<noteq> TypeOf rAddr
      then (Returns (Inl (ErrorsNew ''dial local addr is not match with remote addr'')), fds)
      else
        (case field_IP lAddr of
           Panics \<Rightarrow> (Panics, fds)
         | Returns ip \<Rightarrow>
             (case local_domain ip of
                None \<Rightarrow> (Returns (Inl (ErrorsNew ''local ip is incorrect'')), fds)
              | Some domain \<Rightarrow>
                  (case Socket K domain (sock_typ network) 0 of
                     Inl err \<Rightarrow> (Returns (Inl (Errno err)), fds)
                   | Inr fd \<Rightarrow>
                       (case dial_fd K lAddr rAddr fd (insert fd fds) of
                          (r, fds') \<Rightarrow> (Returns r, fds'))))))"

section \<open>Package Com: UDP relay framing\<close>

record DataPackage =
  pkg_Addr :: net_addr
  pkg_Data :: "byte list"

text \<open>
  \<open>UnMarshalPackage\<close>: three slice expressions in the order of the source, then the
  package. The address-type byte \<open>msg[3]\<close> is never read.
\<close>

definition UnMarshalPackage :: "goslice \<Rightarrow> DataPackage run" where
  "UnMarshalPackage msg =
     (case slice msg 4 8 of
        Panics \<Rightarrow> Panics
      | Returns addr \<Rightarrow>
          (case slice msg 8 10 of
             Panics \<Rightarrow> Panics
           | Returns pb \<Rightarrow>
               (case Uint16 (elems pb) of
                  Panics \<Rightarrow> Panics
                | Returns port \<Rightarrow>
                    (case slice_from msg 10 of
                       Panics \<Rightarrow> Panics
                     | Returns data \<Rightarrow>
                         Returns \<lparr>pkg_Addr = UDPAddr (elems addr) (uint port),
                                  pkg_Data = elems data\<rparr>))))"

section \<open>Properties\<close>

subsection \<open>Bytes and slices\<close>

lemma uint_be16:
  "uint ((ucast (b1::byte) OR push_bit 8 (ucast (b0::byte))) :: uint16) = 256 * uint b0 + uint b1"
proof -
  have e: "(ucast b1 OR push_bit 8 (ucast b0) :: uint16) = push_bit 8 (ucast b0) + ucast b1"
    using word_cat_eq [of b0 b1, where ?'c = 16] word_cat_eq_push_bit_or [of b0 b1, where ?'c = 16]
    by (simp add: or.commute)
  have u0: "uint (ucast b0 :: uint16) = uint b0" by (simp add: uint_up_ucast is_up)
  have u1: "uint (ucast b1 :: uint16) = uint b1" by (simp add: uint_up_ucast is_up)
  have b0: "uint b0 < 256" "0 \<le> uint b0" using uint_lt2p [of b0] by simp_all
  have b1: "uint b1 < 256" "0 \<le> uint b1" using uint_lt2p [of b1] by simp_all
  have p: "uint (push_bit 8 (ucast b0 :: uint16)) = 256 * uint b0"
    using b0 by (simp add: push_bit_eq_mult uint_word_ariths u0 uint_mult_lem)
  show ?thesis
    unfolding e using b0 b1 by (simp add: uint_word_ariths p u1)
qed

lemma take2_drop:
  assumes "k + 2 \<le> length xs"
  shows "take 2 (drop k xs) = [xs ! k, xs ! Suc k]"
proof -
  from assms have "length (take 2 (drop k xs)) = 2" by simp
  moreover from assms have "take 2 (drop k xs) ! 0 = xs ! k" by simp
  moreover from assms have "take 2 (drop k xs) ! 1 = xs ! Suc k" by simp
  ultimately show ?thesis
    by (intro nth_equalityI) (auto simp: less_Suc_eq numeral_2_eq_2)
qed

lemma slice_in_len:
  assumes "lo \<le> hi" "hi \<le> length (elems s)"
  shows "\<exists>sp. slice s lo hi = Returns \<lparr>elems = take (hi - lo) (drop lo (elems s)), spare = sp\<rparr>"
  using assms by (simp add: slice_def)

lemma UnMarshalPackage_long:
  assumes "10 \<le> length (elems msg)"
  shows "UnMarshalPackage msg =
    Returns \<lparr>pkg_Addr = UDPAddr (take 4 (drop 4 (elems msg)))
                 (256 * uint (elems msg ! 8) + uint (elems msg ! 9)),
             pkg_Data = drop 10 (elems msg)\<rparr>"
proof -
  from assms obtain sa where a: "slice msg 4 8 = Returns \<lparr>elems = take 4 (drop 4 (elems msg)), spare = sa\<rparr>"
    using slice_in_len [of 4 8 msg] by auto
  from assms obtain sp where p: "slice msg 8 10 = Returns \<lparr>elems = take 2 (drop 8 (elems msg)), spare = sp\<rparr>"
    using slice_in_len [of 8 10 msg] by auto
  from assms obtain sd where d: "slice_from msg 10 = Returns \<lparr>elems = drop 10 (elems msg), spare = sd\<rparr>"
    using slice_in_len [of 10 "length (elems msg)" msg] by (auto simp: slice_from_def)
  from assms have t: "take 2 (drop 8 (elems msg)) = [elems msg ! 8, elems msg ! 9]"
    using take2_drop [of 8 "elems msg"] by simp
  show ?thesis
    by (simp add: UnMarshalPackage_def a p d t Uint16_def uint_be16)
qed

lemma UnMarshalPackage_short:
  assumes "length (elems msg) < 10"
  shows "UnMarshalPackage msg = Panics"
proof -
  from assms have "slice_from msg 10 = Panics"
    by (simp add: slice_from_def slice_def)
  then show ?thesis
    by (simp add: UnMarshalPackage_def split: run.splits)
qed

subsection \<open>UDP relay framing\<close>

text \<open>
  C10. \<open>UnMarshalPackage\<close> is total from 10 bytes on only: on an input of at least 10
  bytes it returns the address from bytes 4 to 8, the big-endian port from bytes 8 to 10
  and the remaining bytes as payload; on every shorter input it panics (slice bounds out
  of range), whatever the capacity of the slice, and returns no error value.
\<close>

theorem UnMarshalPackage_total_from_10:
  "(10 \<le> length (elems msg) \<longrightarrow>
      UnMarshalPackage msg =
        Returns \<lparr>pkg_Addr = UDPAddr (take 4 (drop 4 (elems msg)))
                     (256 * uint (elems msg ! 8) + uint (elems msg ! 9)),
                 pkg_Data = drop 10 (elems msg)\<rparr>) \<and>
   (length (elems msg) < 10 \<longrightarrow> UnMarshalPackage msg = Panics)"
  using UnMarshalPackage_long [of msg] UnMarshalPackage_short [of msg] by blast

theorem UnMarshalPackage_total_from_10_witness:
  "10 \<le> length (elems \<lparr>elems = [0, 0, 0, 1, 10, 0, 0, 7, 0x1f, 0x90, 0x68, 0x69], spare = []\<rparr>) \<and>
   UnMarshalPackage \<lparr>elems = [0, 0, 0, 1, 10, 0, 0, 7, 0x1f, 0x90, 0x68, 0x69], spare = []\<rparr> =
     Returns \<lparr>pkg_Addr = UDPAddr [10, 0, 0, 7] 8080, pkg_Data = [0x68, 0x69]\<rparr> \<and>
   length (elems \<lparr>elems = [0, 0, 0, 1, 10, 0, 0, 7, 0x1f], spare = [0x90, 0, 0, 0, 0, 0, 0]\<rparr>) < 10 \<and>
   UnMarshalPackage \<lparr>elems = [0, 0, 0, 1, 10, 0, 0, 7, 0x1f], spare = [0x90, 0, 0, 0, 0, 0, 0]\<rparr> = Panics"
  using UnMarshalPackage_total_from_10
          [of "\<lparr>elems = [0, 0, 0, 1, 10, 0, 0, 7, 0x1f, 0x90, 0x68, 0x69], spare = []\<rparr>"]
        UnMarshalPackage_total_from_10
          [of "\<lparr>elems = [0, 0, 0, 1, 10, 0, 0, 7, 0x1f], spare = [0x90, 0, 0, 0, 0, 0, 0]\<rparr>"]
  by simp

text \<open>
  C3, as stated: a datagram whose address-type byte is not 1 is rejected. It is not: the
  24-byte envelope of an IPv6 datagram (address type 4, address \<open>2001:db8::1\<close>, port 53)
  is returned as the IPv4 address \<open>32.1.13.184\<close> with port 0, the rest of the IPv6
  address and the port being taken for payload.
\<close>

theorem UnMarshalPackage_rejects_non_IPv4_counterexample:
  "elems \<lparr>elems = [0, 0, 0, 4, 0x20, 0x01, 0x0d, 0xb8, 0, 0, 0, 0, 0, 0, 0, 0, 0, 0, 0, 1,
                    0, 0x35, 0x68, 0x69], spare = []\<rparr> ! 3 \<noteq> 1 \<and>
   UnMarshalPackage \<lparr>elems = [0, 0, 0, 4, 0x20, 0x01, 0x0d, 0xb8, 0, 0, 0, 0, 0, 0, 0, 0, 0, 0, 0, 1,
                    0, 0x35, 0x68, 0x69], spare = []\<rparr> =
     Returns \<lparr>pkg_Addr = UDPAddr [0x20, 0x01, 0x0d, 0xb8] 0,
              pkg_Data = [0, 0, 0, 0, 0, 0, 0, 0, 0, 1, 0, 0x35, 0x68, 0x69]\<rparr>"
  by (simp add: UnMarshalPackage_def slice_def slice_from_def Uint16_def)

text \<open>
  C3, amended: \<open>UnMarshalPackage\<close> has no error result and never reads the address-type
  byte. A datagram of at least 10 bytes whose address type is not 1 is parsed under the
  fixed IPv4 layout like any other: address from bytes 4 to 8, port from bytes 8 to 10,
  payload from byte 10.
\<close>

theorem UnMarshalPackage_ignores_address_type:
  assumes "10 \<le> length (elems msg)" and "elems msg ! 3 \<noteq> 1"
  shows "UnMarshalPackage msg =
           Returns \<lparr>pkg_Addr = UDPAddr (take 4 (drop 4 (elems msg)))
                        (256 * uint (elems msg ! 8) + uint (elems msg ! 9)),
                    pkg_Data = drop 10 (elems msg)\<rparr>"
  using assms(1) by (rule UnMarshalPackage_long)

theorem UnMarshalPackage_ignores_address_type_witness:
  "10 \<le> length (elems \<lparr>elems = [0, 0, 0, 3, 3, 0x61, 0x2e, 0x62, 0, 0x50, 0x68, 0x69], spare = []\<rparr>) \<and>
   elems \<lparr>elems = [0, 0, 0, 3, 3, 0x61, 0x2e, 0x62, 0, 0x50, 0x68, 0x69], spare = []\<rparr> ! 3 \<noteq> 1 \<and>
   UnMarshalPackage \<lparr>elems = [0, 0, 0, 3, 3, 0x61, 0x2e, 0x62, 0, 0x50, 0x68, 0x69], spare = []\<rparr> =
     Returns \<lparr>pkg_Addr = UDPAddr [3, 0x61, 0x2e, 0x62] 80, pkg_Data = [0x68, 0x69]\<rparr>"
  using UnMarshalPackage_ignores_address_type
          [of "\<lparr>elems = [0, 0, 0, 3, 3, 0x61, 0x2e, 0x62, 0, 0x50, 0x68, 0x69], spare = []\<rparr>"]
  by simp

subsection \<open>Recovery of the original destination\<close>

lemma origdst_short:
  assumes "length (elems d) + length (spare d) < hi"
  shows "origdst d lo hi = Panics"
  using assms by (simp add: origdst_def slice_def)

lemma scan_short_record:
  assumes "m \<in> set msgSl"
    and "Header_Level m = SOL_IP" and "Header_Type m = IP_RECVORIGDSTADDR"
    and "length (elems (msg_Data m)) + length (spare (msg_Data m)) < 8"
  shows "scan msgSl addr = Panics"
  using assms
proof (induction msgSl arbitrary: addr)
  case Nil
  then show ?case by simp
next
  case (Cons x xs)
  show ?case
  proof (cases "x = m")
    case True
    with Cons.prems show ?thesis
      by (simp add: origdst_short)
  next
    case False
    with Cons.prems have "m \<in> set xs" by simp
    then have "\<And>a. scan xs a = Panics"
      using Cons.IH Cons.prems by blast
    then show ?thesis
      by (simp split: run.splits)
  qed
qed

text \<open>
  C4. The claim asks for an error when a matching record is too short. The code has no
  check of the record's length: whenever a record of level \<open>SOL_IP\<close> and type
  \<open>IP_RECVORIGDSTADDR\<close> has fewer than 8 bytes up to the end of its backing array, the
  slice expression \<open>msg.Data[4:8]\<close> panics, wherever the record stands in the buffer.
  The witness is the 20-byte control buffer of one such record with 4 bytes of data
  (family and port of the socket address, the address cut off).
\<close>

theorem ParseRemoteAddrFromMsgHdr_short_record_panics:
  assumes "parse buf = Inr msgSl" and "m \<in> set msgSl"
    and "Header_Level m = SOL_IP" and "Header_Type m = IP_RECVORIGDSTADDR"
    and "length (elems (msg_Data m)) + length (spare (msg_Data m)) < 8"
  shows "ParseRemoteAddrFromMsgHdr parse (Some buf) = Panics"
  using assms(1) scan_short_record [OF assms(2-5)]
  by (simp add: ParseRemoteAddrFromMsgHdr_def)

theorem ParseRemoteAddrFromMsgHdr_short_record_panics_witness:
  "ParseRemoteAddrFromMsgHdr
     (\<lambda>b. Inr [\<lparr>Header_Level = 0, Header_Type = 20,
                 msg_Data = \<lparr>elems = [2, 0, 0x1f, 0x90], spare = []\<rparr>\<rparr>])
     (Some \<lparr>elems = [20, 0, 0, 0, 0, 0, 0, 0, 0, 0, 0, 0, 20, 0, 0, 0, 2, 0, 0x1f, 0x90],
            spare = []\<rparr>) = Panics"
  using ParseRemoteAddrFromMsgHdr_short_record_panics
    [of "\<lambda>b. Inr [\<lparr>Header_Level = 0, Header_Type = 20,
                 msg_Data = \<lparr>elems = [2, 0, 0x1f, 0x90], spare = []\<rparr>\<rparr>]"
        "\<lparr>elems = [20, 0, 0, 0, 0, 0, 0, 0, 0, 0, 0, 0, 20, 0, 0, 0, 2, 0, 0x1f, 0x90], spare = []\<rparr>"
        "[\<lparr>Header_Level = 0, Header_Type = 20,
                 msg_Data = \<lparr>elems = [2, 0, 0x1f, 0x90], spare = []\<rparr>\<rparr>]"
        "\<lparr>Header_Level = 0, Header_Type = 20,
                 msg_Data = \<lparr>elems = [2, 0, 0x1f, 0x90], spare = []\<rparr>\<rparr>"]
  by (simp add: SOL_IP_def IP_RECVORIGDSTADDR_def)

text \<open>
  When the control buffer goes on behind the short record, the same slice expression
  reads the 4 bytes that follow the record, and they come back as the address, with no
  error.
\<close>

lemma ParseRemoteAddrFromMsgHdr_reads_behind_record:
  "ParseRemoteAddrFromMsgHdr
     (\<lambda>b. Inr [\<lparr>Header_Level = 0, Header_Type = 20,
                 msg_Data = \<lparr>elems = [2, 0, 0x1f, 0x90], spare = [0xde, 0xad, 0xbe, 0xef]\<rparr>\<rparr>])
     (Some \<lparr>elems = [20, 0, 0, 0, 0, 0, 0, 0, 0, 0, 0, 0, 20, 0, 0, 0, 2, 0, 0x1f, 0x90],
            spare = [0xde, 0xad, 0xbe, 0xef]\<rparr>) = Returns (Some \<lparr>IP = [0xde, 0xad, 0xbe, 0xef], Port = 8080\<rparr>, None)"
  by (simp add: ParseRemoteAddrFromMsgHdr_def SOL_IP_def IP_RECVORIGDSTADDR_def origdst_def slice_def Uint16_def)

subsection \<open>The transparent dialer\<close>

lemma dial_fd_error_keeps_table:
  assumes "dial_fd K lAddr rAddr fd fds = (Inl err, fds')"
  shows "fds' = fds"
  using assms
  by (auto simp: dial_fd_def split: option.splits sum.splits if_splits)

lemma sockaddr_of_not_mismatch:
  "sockaddr_of ip port \<noteq> Inl (ErrorsNew ''dial local addr is not match with remote addr'')"
  by (simp add: sockaddr_of_def Let_def split: option.splits)

lemma convertAddrToSockAddr_not_mismatch:
  "convertAddrToSockAddr a \<noteq> Inl (ErrorsNew ''dial local addr is not match with remote addr'')"
  by (cases a) (simp_all add: sockaddr_of_not_mismatch)

lemma SetSockOptTrn_not_mismatch:
  "SetSockOptTrn K fd \<noteq> Some (ErrorsNew ''dial local addr is not match with remote addr'')"
  by (simp add: SetSockOptTrn_def split: option.splits sum.splits)

lemma dial_fd_not_mismatch:
  "fst (dial_fd K lAddr rAddr fd fds) \<noteq> Inl (ErrorsNew ''dial local addr is not match with remote addr'')"
proof -
  have "fst (dial_fd K lAddr rAddr fd fds) = Inl e \<Longrightarrow>
        e \<noteq> ErrorsNew ''dial local addr is not match with remote addr''" for e
    using SetSockOptTrn_not_mismatch [of K fd]
      convertAddrToSockAddr_not_mismatch [of lAddr] convertAddrToSockAddr_not_mismatch [of rAddr]
    by (auto simp: dial_fd_def split: option.splits sum.splits if_splits)
  then show ?thesis by blast
qed

lemma dial_fd_mismatch_False:
  "dial_fd K lAddr rAddr fd fds =
     (Inl (ErrorsNew ''dial local addr is not match with remote addr''), fds') \<Longrightarrow> False"
  using dial_fd_not_mismatch [of K lAddr rAddr fd fds] by simp

text \<open>
  C6, as stated: a dial that fails after the socket is created closes the descriptor
  first. It does not: with a kernel that creates descriptor 3 and refuses
  \<open>IP_TRANSPARENT\<close> with \<open>EPERM\<close> (1), the dial returns the error and descriptor 3
  is still in the table.
\<close>

theorem MegaDial_releases_descriptor_counterexample:
  "MegaDial
     \<lparr>Socket = (\<lambda>domain typ proto. Inr 3),
      GetsockoptInt = (\<lambda>fd level opt. Inr 1),
      SetsockoptInt = (\<lambda>fd level opt v. if level = SOL_IP \<and> opt = IP_TRANSPARENT then Some 1 else None),
      Bind = (\<lambda>fd sa. None),
      Connect = (\<lambda>fd sa. None),
      FileConn = (\<lambda>fd. Inr 4)\<rparr>
     ''tcp'' (TCPAddr [10, 0, 0, 1] 40000) (TCPAddr [10, 0, 0, 2] 1080) {} =
   (Returns (Inl (Errno 1)), {3})"
  by (simp add: MegaDial_def local_domain_def To4_def dial_fd_def SetSockOptTrn_def
        SOL_SOCKET_def SO_TYPE_def SOCK_STREAM_def SOCK_DGRAM_def SO_REUSEADDR_def
        SOL_IP_def IP_TRANSPARENT_def)

text \<open>
  C6, amended: whenever the dialer fails at a step after creating the socket (setting
  the socket options, converting the addresses, bind, connect, wrapping the descriptor),
  it returns the error at once and closes nothing: the table of open descriptors is the
  table before the call with the new descriptor added. The witness is a dial whose
  connect is refused (\<open>ECONNREFUSED\<close>, 111).
\<close>

theorem MegaDial_failure_leaves_descriptor_open:
  assumes "TypeOf lAddr = TypeOf rAddr"
    and "field_IP lAddr = Returns ip"
    and "local_domain ip = Some domain"
    and "Socket K domain (sock_typ network) 0 = Inr fd"
    and "MegaDial K network lAddr rAddr fds = (Returns (Inl err), fds')"
  shows "fds' = insert fd fds"
proof -
  obtain r where d: "dial_fd K lAddr rAddr fd (insert fd fds) = (r, fds')" and r: "r = Inl err"
    using assms by (auto simp: MegaDial_def split: prod.splits)
  then show ?thesis
    using dial_fd_error_keeps_table by blast
qed

theorem MegaDial_failure_leaves_descriptor_open_witness:
  "MegaDial
     \<lparr>Socket = (\<lambda>domain typ proto. Inr 3),
      GetsockoptInt = (\<lambda>fd level opt. Inr 1),
      SetsockoptInt = (\<lambda>fd level opt v. None),
      Bind = (\<lambda>fd sa. None),
      Connect = (\<lambda>fd sa. Some 111),
      FileConn = (\<lambda>fd. Inr 4)\<rparr>
     ''tcp'' (TCPAddr [10, 0, 0, 1] 40000) (TCPAddr [10, 0, 0, 2] 1080) {} =
   (Returns (Inl (Errno 111)), {3}) \<and> {3} = insert 3 ({} :: int set)"
proof -
  let ?K = "\<lparr>Socket = (\<lambda>domain typ proto. Inr 3),
      GetsockoptInt = (\<lambda>fd level opt. Inr 1),
      SetsockoptInt = (\<lambda>fd level opt v. None),
      Bind = (\<lambda>fd sa. None),
      Connect = (\<lambda>fd sa. Some 111),
      FileConn = (\<lambda>fd. Inr 4)\<rparr> :: kernel"
  have run: "MegaDial ?K ''tcp'' (TCPAddr [10, 0, 0, 1] 40000) (TCPAddr [10, 0, 0, 2] 1080) {} =
      (Returns (Inl (Errno 111)), {3})"
    by (simp add: MegaDial_def local_domain_def To4_def dial_fd_def SetSockOptTrn_def
        SOL_SOCKET_def SO_TYPE_def SOCK_STREAM_def SOCK_DGRAM_def SO_REUSEADDR_def
        SOL_IP_def IP_TRANSPARENT_def IP_RECVORIGDSTADDR_def sockaddr_of_def)
  have "{3} = insert 3 ({} :: int set)"
    by (rule MegaDial_failure_leaves_descriptor_open
          [of "TCPAddr [10, 0, 0, 1] 40000" "TCPAddr [10, 0, 0, 2] 1080" "[10, 0, 0, 1]"
              AF_INET ?K "''tcp''" 3 "{}" "Errno 111" "{3}"])
       (simp_all add: run local_domain_def To4_def)
  with run show ?thesis by simp
qed

text \<open>
  C7, as stated: an IPv4 local address and an IPv6 remote address of the same transport
  make the dial fail with the mismatch error. They do not: the check compares the types
  of the two addresses only, so the dial creates an IPv4 socket, sets its options, binds
  it and hands the IPv6 address to \<open>connect\<close>; what comes back is the kernel's answer,
  here \<open>EAFNOSUPPORT\<close> (97), and the descriptor stays open.
\<close>

theorem MegaDial_address_family_counterexample:
  "MegaDial
     \<lparr>Socket = (\<lambda>domain typ proto. Inr 3),
      GetsockoptInt = (\<lambda>fd level opt. Inr 1),
      SetsockoptInt = (\<lambda>fd level opt v. None),
      Bind = (\<lambda>fd sa. None),
      Connect = (\<lambda>fd sa. case sa of SockaddrInet4 p a \<Rightarrow> None | SockaddrInet6 p a \<Rightarrow> Some 97),
      FileConn = (\<lambda>fd. Inr 4)\<rparr>
     ''tcp'' (TCPAddr [10, 0, 0, 1] 40000)
     (TCPAddr [0x20, 0x01, 0x0d, 0xb8, 0, 0, 0, 0, 0, 0, 0, 0, 0, 0, 0, 1] 1080) {} =
   (Returns (Inl (Errno 97)), {3})"
  by (simp add: MegaDial_def local_domain_def To4_def To16_def dial_fd_def SetSockOptTrn_def
        SOL_SOCKET_def SO_TYPE_def SOCK_STREAM_def SOCK_DGRAM_def SO_REUSEADDR_def
        SOL_IP_def IP_TRANSPARENT_def IP_RECVORIGDSTADDR_def sockaddr_of_def v4InV6Prefix_def)

text \<open>
  C7, amended: the dialer requires the local and the remote address to be of the same
  type, that is the same transport, and fails with the mismatch error otherwise, before
  any system call. It does not compare the address families: for two addresses of the
  same type it never returns the mismatch error, and the family of the socket it creates
  is that of the local address alone (\<open>AF_INET\<close> for an address of 4 bytes or in the
  16-byte IPv4 form, \<open>AF_INET6\<close> for any other of 16 bytes), whatever the remote
  address; the remote address is first used after the socket is created.
\<close>

theorem MegaDial_checks_type_only:
  "(TypeOf lAddr \<noteq> TypeOf rAddr \<longrightarrow>
      MegaDial K network lAddr rAddr fds =
        (Returns (Inl (ErrorsNew ''dial local addr is not match with remote addr'')), fds)) \<and>
   (TypeOf lAddr = TypeOf rAddr \<longrightarrow>
      fst (MegaDial K network lAddr rAddr fds) \<noteq>
        Returns (Inl (ErrorsNew ''dial local addr is not match with remote addr'')) \<and>
      (field_IP lAddr = Returns ip \<longrightarrow>
         MegaDial K network lAddr rAddr fds =
           (let dial = (\<lambda>domain.
                  case Socket K domain (sock_typ network) 0 of
                    Inl err \<Rightarrow> (Returns (Inl (Errno err)), fds)
                  | Inr fd \<Rightarrow>
                      (case dial_fd K lAddr rAddr fd (insert fd fds) of
                         (r, fds') \<Rightarrow> (Returns r, fds')))
            in if length ip = 4 \<or> (length ip = 16 \<and> take 12 ip = v4InV6Prefix)
                 then dial AF_INET
               else if length ip = 16 then dial AF_INET6
               else (Returns (Inl (ErrorsNew ''local ip is incorrect'')), fds))))"
proof (intro conjI impI)
  assume "TypeOf lAddr \<noteq> TypeOf rAddr"
  then show "MegaDial K network lAddr rAddr fds =
        (Returns (Inl (ErrorsNew ''dial local addr is not match with remote addr'')), fds)"
    by (simp add: MegaDial_def)
next
  assume "TypeOf lAddr = TypeOf rAddr"
  then show "fst (MegaDial K network lAddr rAddr fds) \<noteq>
        Returns (Inl (ErrorsNew ''dial local addr is not match with remote addr''))"
    by (auto simp: MegaDial_def split: run.splits option.splits sum.splits prod.splits
          dest: dial_fd_mismatch_False)
next
  assume ty: "TypeOf lAddr = TypeOf rAddr" and ip: "field_IP lAddr = Returns ip"
  have dom: "local_domain ip =
      (if length ip = 4 \<or> (length ip = 16 \<and> take 12 ip = v4InV6Prefix) then Some AF_INET
       else if length ip = 16 then Some AF_INET6 else None)"
    by (simp add: local_domain_def To4_def To16_def)
  show "MegaDial K network lAddr rAddr fds =
           (let dial = (\<lambda>domain.
                  case Socket K domain (sock_typ network) 0 of
                    Inl err \<Rightarrow> (Returns (Inl (Errno err)), fds)
                  | Inr fd \<Rightarrow>
                      (case dial_fd K lAddr rAddr fd (insert fd fds) of
                         (r, fds') \<Rightarrow> (Returns r, fds')))
            in if length ip = 4 \<or> (length ip = 16 \<and> take 12 ip = v4InV6Prefix)
                 then dial AF_INET
               else if length ip = 16 then dial AF_INET6
               else (Returns (Inl (ErrorsNew ''local ip is incorrect'')), fds))"
    using ty ip by (simp add: MegaDial_def dom Let_def)
qed

theorem MegaDial_checks_type_only_witness:
  "TypeOf (TCPAddr [10, 0, 0, 1] 40000) \<noteq> TypeOf (UDPAddr [10, 0, 0, 2] 1080) \<and>
   MegaDial
     \<lparr>Socket = (\<lambda>domain typ proto. if domain = AF_INET then Inr 3 else Inl 24),
      GetsockoptInt = (\<lambda>fd level opt. Inr 1),
      SetsockoptInt = (\<lambda>fd level opt v. None),
      Bind = (\<lambda>fd sa. None),
      Connect = (\<lambda>fd sa. case sa of SockaddrInet4 p a \<Rightarrow> None | SockaddrInet6 p a \<Rightarrow> Some 97),
      FileConn = (\<lambda>fd. Inr 4)\<rparr>
     ''tcp'' (TCPAddr [10, 0, 0, 1] 40000) (UDPAddr [10, 0, 0, 2] 1080) {} =
     (Returns (Inl (ErrorsNew ''dial local addr is not match with remote addr'')), {}) \<and>
   TypeOf (TCPAddr [10, 0, 0, 1] 40000) =
     TypeOf (TCPAddr [0x20, 0x01, 0x0d, 0xb8, 0, 0, 0, 0, 0, 0, 0, 0, 0, 0, 0, 1] 1080) \<and>
   field_IP (TCPAddr [10, 0, 0, 1] 40000) = Returns [10, 0, 0, 1] \<and>
   MegaDial
     \<lparr>Socket = (\<lambda>domain typ proto. if domain = AF_INET then Inr 3 else Inl 24),
      GetsockoptInt = (\<lambda>fd level opt. Inr 1),
      SetsockoptInt = (\<lambda>fd level opt v. None),
      Bind = (\<lambda>fd sa. None),
      Connect = (\<lambda>fd sa. case sa of SockaddrInet4 p a \<Rightarrow> None | SockaddrInet6 p a \<Rightarrow> Some 97),
      FileConn = (\<lambda>fd. Inr 4)\<rparr>
     ''tcp'' (TCPAddr [10, 0, 0, 1] 40000)
          (TCPAddr [0x20, 0x01, 0x0d, 0xb8, 0, 0, 0, 0, 0, 0, 0, 0, 0, 0, 0, 1] 1080) {} =
     (Returns (Inl (Errno 97)), {3}) \<and>
   TypeOf (TCPAddr [0x20, 0x01, 0x0d, 0xb8, 0, 0, 0, 0, 0, 0, 0, 0, 0, 0, 0, 1] 40000) =
     TypeOf (TCPAddr [10, 0, 0, 2] 1080) \<and>
   field_IP (TCPAddr [0x20, 0x01, 0x0d, 0xb8, 0, 0, 0, 0, 0, 0, 0, 0, 0, 0, 0, 1] 40000) =
     Returns [0x20, 0x01, 0x0d, 0xb8, 0, 0, 0, 0, 0, 0, 0, 0, 0, 0, 0, 1] \<and>
   MegaDial
     \<lparr>Socket = (\<lambda>domain typ proto. if domain = AF_INET then Inr 3 else Inl 24),
      GetsockoptInt = (\<lambda>fd level opt. Inr 1),
      SetsockoptInt = (\<lambda>fd level opt v. None),
      Bind = (\<lambda>fd sa. None),
      Connect = (\<lambda>fd sa. case sa of SockaddrInet4 p a \<Rightarrow> None | SockaddrInet6 p a \<Rightarrow> Some 97),
      FileConn = (\<lambda>fd. Inr 4)\<rparr>
     ''tcp'' (TCPAddr [0x20, 0x01, 0x0d, 0xb8, 0, 0, 0, 0, 0, 0, 0, 0, 0, 0, 0, 1] 40000)
          (TCPAddr [10, 0, 0, 2] 1080) {} =
     (Returns (Inl (Errno 24)), {})"
proof -
  let ?K = "\<lparr>Socket = (\<lambda>domain typ proto. if domain = AF_INET then Inr 3 else Inl 24),
      GetsockoptInt = (\<lambda>fd level opt. Inr 1),
      SetsockoptInt = (\<lambda>fd level opt v. None),
      Bind = (\<lambda>fd sa. None),
      Connect = (\<lambda>fd sa. case sa of SockaddrInet4 p a \<Rightarrow> None | SockaddrInet6 p a \<Rightarrow> Some 97),
      FileConn = (\<lambda>fd. Inr 4)\<rparr> :: kernel"
  let ?v4 = "[10, 0, 0, 1] :: byte list"
  let ?v6 = "[0x20, 0x01, 0x0d, 0xb8, 0, 0, 0, 0, 0, 0, 0, 0, 0, 0, 0, 1] :: byte list"
  have d: "dial_fd ?K (TCPAddr ?v4 40000) (TCPAddr ?v6 1080) 3 {3} = (Inl (Errno 97), {3})"
    by (simp add: dial_fd_def SetSockOptTrn_def SOCK_STREAM_def SOCK_DGRAM_def sockaddr_of_def
          To4_def To16_def v4InV6Prefix_def)
  have r1: "MegaDial ?K ''tcp'' (TCPAddr ?v4 40000) (UDPAddr [10, 0, 0, 2] 1080) {} =
      (Returns (Inl (ErrorsNew ''dial local addr is not match with remote addr'')), {})"
    using MegaDial_checks_type_only
            [of "TCPAddr ?v4 40000" "UDPAddr [10, 0, 0, 2] 1080" ?K "''tcp''" "{}" ?v4]
    by simp
  have r2: "MegaDial ?K ''tcp'' (TCPAddr ?v4 40000) (TCPAddr ?v6 1080) {} =
      (Returns (Inl (Errno 97)), {3})"
    using MegaDial_checks_type_only
            [of "TCPAddr ?v4 40000" "TCPAddr ?v6 1080" ?K "''tcp''" "{}" ?v4]
    by (simp add: d)
  have r3: "MegaDial ?K ''tcp'' (TCPAddr ?v6 40000) (TCPAddr [10, 0, 0, 2] 1080) {} =
      (Returns (Inl (Errno 24)), {})"
    using MegaDial_checks_type_only
            [of "TCPAddr ?v6 40000" "TCPAddr [10, 0, 0, 2] 1080" ?K "''tcp''" "{}" ?v6]
    by (simp add: v4InV6Prefix_def AF_INET_def AF_INET6_def)
  show ?thesis
    by (simp add: r1 r2 r3)
qed

subsection \<open>The SOCKS5 negotiation\<close>

text \<open>
  The statements are about a fresh connection whose writes succeed
  (\<open>wfails = []\<close>, \<open>wlog = []\<close>), so that \<open>wlog\<close> after the run is the list of
  everything \<open>Tunnel\<close> wrote.
\<close>

lemma handshake_reply:
  "handshake \<lparr>incoming = Data [ver, method] # evs, wfails = [], wlog = []\<rparr> user password =
     (if ver \<noteq> 5 \<or> (method \<noteq> 0 \<and> method \<noteq> 2)
        then Inl (ErrProtoInvalid ver method) else Inr method,
      \<lparr>incoming = evs, wfails = [], wlog = [greeting user password]\<rparr>)"
  by (simp add: handshake_def Write_def Read_def greeting_def Let_def)

lemma authenticate_reply:
  assumes "length rest < 32"
  shows "authenticate \<lparr>incoming = Data (s # rest) # evs, wfails = [], wlog = ws\<rparr> user password =
     (if s \<noteq> 5 \<and> s \<noteq> 1 then Some (ErrAuthResponse s) else None,
      \<lparr>incoming = evs, wfails = [], wlog = ws @ [auth_request user password]\<rparr>)"
  using assms by (simp add: authenticate_def Write_def Read_def Let_def min_def)

lemma connect_reply_ipv4:
  "connect_reply \<lparr>incoming = [Data [5, 0, 0, 1, 0, 0, 0, 0, 0, 0]], wfails = [], wlog = ws\<rparr>
     (b0 # b1 # b2 # b3 # b4 # b5 # buf) =
     (None, \<lparr>incoming = [], wfails = [], wlog = ws\<rparr>)"
  by (simp add: connect_reply_def reply_addr_def read_into_def ReadFull.simps Read_def Let_def)

lemma byte_len_exact:
  assumes "length s \<le> 255"
  shows "unat (byte_len s) = length s"
  using assms by (simp add: byte_len_def unat_of_nat)

text \<open>
  C8. For every 2-byte method-selection reply (version, method): if the version is not 5
  the negotiation fails and the greeting stays the only write on the connection; if the
  method is neither 0 nor 2 it fails as well; if the method is 2 the authentication is
  performed next, and the CONNECT stage after it when it succeeds; if the method is 0 the
  CONNECT stage follows directly. The code has one error for both failures,
  \<open>sock5 proto is invalid, sock type: .., method: ..\<close>, which carries the version and
  the method of the reply.
\<close>

theorem negotiate_method_selection:
  assumes "target (handler_rAddr h) = Inr (port, ip, dominname)"
  shows "negotiate \<lparr>incoming = Data [ver, method] # evs, wfails = [], wlog = []\<rparr> h =
     (if ver \<noteq> 5 \<or> (method \<noteq> 0 \<and> method \<noteq> 2)
        then (Some (ErrProtoInvalid ver method),
              \<lparr>incoming = evs, wfails = [], wlog = [greeting (UserName h) (Password h)]\<rparr>)
      else if method = 2
        then (case authenticate
                     \<lparr>incoming = evs, wfails = [], wlog = [greeting (UserName h) (Password h)]\<rparr>
                     (UserName h) (Password h) of
                (Some err, c2) \<Rightarrow> (Some err, c2)
              | (None, c2) \<Rightarrow> connect c2 ip dominname port)
      else connect \<lparr>incoming = evs, wfails = [], wlog = [greeting (UserName h) (Password h)]\<rparr>
             ip dominname port)"
  using assms by (simp add: negotiate_def handshake_reply)

theorem negotiate_method_selection_witness:
  "negotiate \<lparr>incoming = [Data [4, 0], Data [1, 0]], wfails = [], wlog = []\<rparr>
     \<lparr>handler_rAddr = TCPAddr [1, 2, 3, 4] 80, UserName = ''u'', Password = ''p'',
      handler_rConn = None\<rparr> =
     (Some (ErrProtoInvalid 4 0),
      \<lparr>incoming = [Data [1, 0]], wfails = [], wlog = [[5, 2, 0, 2]]\<rparr>) \<and>
   negotiate \<lparr>incoming = [Data [5, 0xff]], wfails = [], wlog = []\<rparr>
     \<lparr>handler_rAddr = TCPAddr [1, 2, 3, 4] 80, UserName = ''u'', Password = ''p'',
      handler_rConn = None\<rparr> =
     (Some (ErrProtoInvalid 5 0xff), \<lparr>incoming = [], wfails = [], wlog = [[5, 2, 0, 2]]\<rparr>) \<and>
   negotiate \<lparr>incoming = [Data [5, 2], Data [1, 0], Data [5, 0, 0, 1, 0, 0, 0, 0, 0, 0]],
              wfails = [], wlog = []\<rparr>
     \<lparr>handler_rAddr = TCPAddr [1, 2, 3, 4] 80, UserName = ''u'', Password = ''p'',
      handler_rConn = None\<rparr> =
     (None, \<lparr>incoming = [], wfails = [],
             wlog = [[5, 2, 0, 2], [1, 1, 117, 1, 112], [5, 1, 0, 1, 1, 2, 3, 4, 0, 80]]\<rparr>) \<and>
   negotiate \<lparr>incoming = [Data [5, 0], Data [5, 0, 0, 1, 0, 0, 0, 0, 0, 0]],
              wfails = [], wlog = []\<rparr>
     \<lparr>handler_rAddr = TCPAddr [1, 2, 3, 4] 80, UserName = ''u'', Password = ''p'',
      handler_rConn = None\<rparr> =
     (None, \<lparr>incoming = [], wfails = [],
             wlog = [[5, 2, 0, 2], [5, 1, 0, 1, 1, 2, 3, 4, 0, 80]]\<rparr>)"
proof -
  let ?h = "\<lparr>handler_rAddr = TCPAddr [1, 2, 3, 4] 80, UserName = ''u'', Password = ''p'',
      handler_rConn = None\<rparr>"
  have t: "target (handler_rAddr ?h) = Inr (0, [1, 2, 3, 4], [])"
    by (simp add: target_def)
  have req: "connect_request [1, 2, 3, 4] [] 0 = Inr [5, 1, 0, 1, 1, 2, 3, 4, 0, 80]"
    by (simp add: connect_request_def To4_def PutUint16_def)
  show ?thesis
    using negotiate_method_selection [OF t, of 4 0 "[Data [1, 0]]"]
      negotiate_method_selection [OF t, of 5 "0xff" "[]"]
      negotiate_method_selection [OF t, of 5 2 "[Data [1, 0], Data [5, 0, 0, 1, 0, 0, 0, 0, 0, 0]]"]
      negotiate_method_selection [OF t, of 5 0 "[Data [5, 0, 0, 1, 0, 0, 0, 0, 0, 0]]"]
    by (simp add: greeting_def authenticate_reply auth_request_def bytes_def byte_len_def
          connect_def req Write_def connect_reply_ipv4)
qed

text \<open>
  C1, as stated: an authentication reply with status byte 0 or 1 is a success, any other
  a failure. A reply that starts with 0 is refused: the run ends with
  \<open>incorrect sock5 auth response, code: 0\<close> after the greeting and the authentication
  request, and no CONNECT request is written.
\<close>

theorem negotiate_auth_status_counterexample:
  "negotiate \<lparr>incoming = [Data [5, 2], Data [0, 0]], wfails = [], wlog = []\<rparr>
     \<lparr>handler_rAddr = TCPAddr [1, 2, 3, 4] 80, UserName = ''u'', Password = ''p'',
      handler_rConn = None\<rparr> =
     (Some (ErrAuthResponse 0),
      \<lparr>incoming = [], wfails = [], wlog = [[5, 2, 0, 2], [1, 1, 117, 1, 112]]\<rparr>)"
  by (simp add: negotiate_def target_def handshake_reply authenticate_reply greeting_def
        auth_request_def bytes_def byte_len_def)

text \<open>
  C1, amended: the code looks at the first byte of the authentication reply, the version
  field, and accepts 1 (the value of the standard) and 5 (sent by some servers, as the
  comment in the code says); the byte after it is not examined. For every reply whose
  first byte is 1 or 5 the negotiation goes on to the CONNECT stage; for every other
  value of that byte it fails with the authentication error.
\<close>

theorem negotiate_auth_reply:
  assumes "target (handler_rAddr h) = Inr (port, ip, dominname)" and "length rest < 32"
  shows "negotiate \<lparr>incoming = Data [5, 2] # Data (s # rest) # evs, wfails = [], wlog = []\<rparr> h =
     (if s = 1 \<or> s = 5
        then connect \<lparr>incoming = evs, wfails = [],
                      wlog = [greeting (UserName h) (Password h),
                              auth_request (UserName h) (Password h)]\<rparr> ip dominname port
      else (Some (ErrAuthResponse s),
            \<lparr>incoming = evs, wfails = [],
             wlog = [greeting (UserName h) (Password h),
                     auth_request (UserName h) (Password h)]\<rparr>))"
  using assms by (auto simp add: negotiate_def handshake_reply authenticate_reply)

theorem negotiate_auth_reply_witness:
  "negotiate \<lparr>incoming = [Data [5, 2], Data [5, 0], Data [5, 0, 0, 1, 0, 0, 0, 0, 0, 0]],
              wfails = [], wlog = []\<rparr>
     \<lparr>handler_rAddr = TCPAddr [1, 2, 3, 4] 80, UserName = ''u'', Password = ''p'',
      handler_rConn = None\<rparr> =
     (None, \<lparr>incoming = [], wfails = [],
             wlog = [[5, 2, 0, 2], [1, 1, 117, 1, 112], [5, 1, 0, 1, 1, 2, 3, 4, 0, 80]]\<rparr>) \<and>
   negotiate \<lparr>incoming = [Data [5, 2], Data [1, 1], Data [5, 0, 0, 1, 0, 0, 0, 0, 0, 0]],
              wfails = [], wlog = []\<rparr>
     \<lparr>handler_rAddr = TCPAddr [1, 2, 3, 4] 80, UserName = ''u'', Password = ''p'',
      handler_rConn = None\<rparr> =
     (None, \<lparr>incoming = [], wfails = [],
             wlog = [[5, 2, 0, 2], [1, 1, 117, 1, 112], [5, 1, 0, 1, 1, 2, 3, 4, 0, 80]]\<rparr>) \<and>
   negotiate \<lparr>incoming = [Data [5, 2], Data [2, 0]], wfails = [], wlog = []\<rparr>
     \<lparr>handler_rAddr = TCPAddr [1, 2, 3, 4] 80, UserName = ''u'', Password = ''p'',
      handler_rConn = None\<rparr> =
     (Some (ErrAuthResponse 2),
      \<lparr>incoming = [], wfails = [], wlog = [[5, 2, 0, 2], [1, 1, 117, 1, 112]]\<rparr>)"
proof -
  let ?h = "\<lparr>handler_rAddr = TCPAddr [1, 2, 3, 4] 80, UserName = ''u'', Password = ''p'',
      handler_rConn = None\<rparr>"
  have t: "target (handler_rAddr ?h) = Inr (0, [1, 2, 3, 4], [])"
    by (simp add: target_def)
  have l: "length [0 :: byte] < 32"
    by simp
  have l1: "length [1 :: byte] < 32"
    by simp
  have req: "connect_request [1, 2, 3, 4] [] 0 = Inr [5, 1, 0, 1, 1, 2, 3, 4, 0, 80]"
    by (simp add: connect_request_def To4_def PutUint16_def)
  show ?thesis
    using negotiate_auth_reply [OF t l, of 5 "[Data [5, 0, 0, 1, 0, 0, 0, 0, 0, 0]]"]
      negotiate_auth_reply [OF t l1, of 1 "[Data [5, 0, 0, 1, 0, 0, 0, 0, 0, 0]]"]
      negotiate_auth_reply [OF t l, of 2 "[]"]
    by (simp add: greeting_def auth_request_def bytes_def byte_len_def
          connect_def req Write_def connect_reply_ipv4)
qed

text \<open>
  C2. The claim asks that the CONNECT request end with the target's port, 80 standing in
  for port 0 only. For a TCP target the code does not do so: the case of
  \<open>*net.TCPAddr\<close> in the type switch never assigns \<open>port\<close> (the case of
  \<open>*DomainAddr\<close> does), so whatever the port \<open>p\<close> of the target, the request ends
  with \<open>00 50\<close>, port 80. The witness is the run for the target \<open>1.2.3.4:443\<close>.
\<close>

theorem negotiate_tcp_port_is_80:
  assumes "handler_rAddr h = TCPAddr [a, b, c, d] p"
  shows "negotiate \<lparr>incoming = Data [5, 0] # evs, wfails = [], wlog = []\<rparr> h =
     connect_reply
       \<lparr>incoming = evs, wfails = [],
        wlog = [greeting (UserName h) (Password h), [5, 1, 0, 1, a, b, c, d, 0, 80]]\<rparr>
       [5, 1, 0, 1, a, b, c, d, 0, 80]"
  using assms
  by (simp add: negotiate_def target_def handshake_reply connect_def connect_request_def
        To4_def PutUint16_def Write_def)

theorem negotiate_tcp_port_is_80_witness:
  "Tunnel (Inr \<lparr>incoming = [Data [5, 0], Data [5, 0, 0, 1, 0, 0, 0, 0, 0, 0]],
                wfails = [], wlog = []\<rparr>)
     \<lparr>handler_rAddr = TCPAddr [1, 2, 3, 4] 443, UserName = [], Password = [],
      handler_rConn = None\<rparr> =
     (None,
      \<lparr>handler_rAddr = TCPAddr [1, 2, 3, 4] 443, UserName = [], Password = [],
       handler_rConn =
         Some \<lparr>incoming = [], wfails = [],
               wlog = [[5, 1, 0], [5, 1, 0, 1, 1, 2, 3, 4, 0, 80]]\<rparr>\<rparr>)"
  using negotiate_tcp_port_is_80
    [of "\<lparr>handler_rAddr = TCPAddr [1, 2, 3, 4] 443, UserName = [], Password = [],
          handler_rConn = None\<rparr>" 1 2 3 4 443 "[Data [5, 0, 0, 1, 0, 0, 0, 0, 0, 0]]"]
  by (simp add: Tunnel_def greeting_def connect_reply_ipv4)

text \<open>
  C5, as stated: an IPv4 address is written with address type 1 and 4 bytes whether it
  is stored in 4 or in 16 bytes. The address \<open>1.2.3.4\<close> in its 16-byte form (what
  \<open>net.IPv4\<close> builds, and \<open>To4\<close> turns back into 4 bytes) is written with address
  type 4 and 16 bytes.
\<close>

theorem connect_request_literal_counterexample:
  "To4 (IPv4 1 2 3 4) = Some [1, 2, 3, 4] \<and>
   connect_request (IPv4 1 2 3 4) [] 8080 =
     Inr [5, 1, 0, 4, 0, 0, 0, 0, 0, 0, 0, 0, 0, 0, 0xff, 0xff, 1, 2, 3, 4, 0x1f, 0x90]"
  by (simp add: connect_request_def To4_def To16_def IPv4_def v4InV6Prefix_def PutUint16_def)

text \<open>
  C5, amended: the code tests the stored length first (\<open>len(ip) == net.IPv4len\<close>). A
  literal address stored in 4 bytes is written with address type 1 and its 4 bytes; one
  stored in 16 bytes, the 16-byte form of an IPv4 address included, with address type 4
  and its 16 bytes; for any other length the encoding fails with \<open>ip invalid\<close>.
\<close>

theorem connect_request_literal:
  "connect_request ip [] port =
     (if length ip = 4 then Inr ([5, 1, 0, 1] @ ip @ PutUint16 (if port = 0 then 80 else port))
      else if length ip = 16 then Inr ([5, 1, 0, 4] @ ip @ PutUint16 (if port = 0 then 80 else port))
      else Inl (ErrorsNew ''ip invalid''))"
  by (simp add: connect_request_def To4_def To16_def Let_def)

theorem connect_request_literal_witness:
  "connect_request [1, 2, 3, 4] [] 8080 = Inr [5, 1, 0, 1, 1, 2, 3, 4, 0x1f, 0x90] \<and>
   connect_request [0x20, 0x01, 0x0d, 0xb8, 0, 0, 0, 0, 0, 0, 0, 0, 0, 0, 0, 1] [] 8080 =
     Inr [5, 1, 0, 4, 0x20, 0x01, 0x0d, 0xb8, 0, 0, 0, 0, 0, 0, 0, 0, 0, 0, 0, 1, 0x1f, 0x90] \<and>
   connect_request [1, 2, 3, 4, 5] [] 8080 = Inl (ErrorsNew ''ip invalid'')"
  using connect_request_literal [of "[1, 2, 3, 4]" 8080]
    connect_request_literal [of "[0x20, 0x01, 0x0d, 0xb8, 0, 0, 0, 0, 0, 0, 0, 0, 0, 0, 0, 1]" 8080]
    connect_request_literal [of "[1, 2, 3, 4, 5]" 8080]
  by (simp add: PutUint16_def)

text \<open>
  C9, as stated: every name of at most 255 bytes is written with address type 3. The
  empty name is not: the code takes an empty \<open>dominname\<close> for "no name" and writes the
  placeholder address of the \<open>*DomainAddr\<close> case, \<open>0.0.0.1\<close> in its 16-byte form,
  with address type 4.
\<close>

theorem negotiate_empty_name_counterexample:
  "negotiate \<lparr>incoming = [Data [5, 0], Data [5, 0, 0, 1, 0, 0, 0, 0, 0, 0]],
              wfails = [], wlog = []\<rparr>
     \<lparr>handler_rAddr = DomainAddr [] 443, UserName = [], Password = [], handler_rConn = None\<rparr> =
     (None,
      \<lparr>incoming = [], wfails = [],
       wlog = [[5, 1, 0],
               [5, 1, 0, 4, 0, 0, 0, 0, 0, 0, 0, 0, 0, 0, 0xff, 0xff, 0, 0, 0, 1, 1, 0xbb]]\<rparr>)"
  by (simp add: negotiate_def target_def handshake_reply connect_def connect_request_def
        To4_def To16_def IPv4_def v4InV6Prefix_def PutUint16_def Write_def greeting_def
        connect_reply_ipv4)

text \<open>
  C9, amended: for every non-empty name of at most 255 bytes the CONNECT request carries
  the name with address type 3, its length in one byte and its bytes; for every name of
  256 bytes or more the encoding fails with \<open>domain name out of max length\<close> and the
  CONNECT stage writes nothing on the connection.
\<close>

theorem connect_request_name:
  assumes "dominname \<noteq> []"
  shows "(length dominname \<le> 255 \<longrightarrow>
            connect_request ip dominname port =
              Inr ([5, 1, 0, 3] @ [byte_len dominname] @ bytes dominname @
                   PutUint16 (if port = 0 then 80 else port)) \<and>
            unat (byte_len dominname) = length dominname \<and>
            length (bytes dominname) = length dominname) \<and>
         (256 \<le> length dominname \<longrightarrow>
            connect_request ip dominname port = Inl (ErrorsNew ''domain name out of max length'') \<and>
            connect c ip dominname port = (Some (ErrorsNew ''domain name out of max length''), c))"
  using assms by (auto simp add: connect_request_def connect_def Let_def byte_len_exact bytes_def)

theorem connect_request_name_witness:
  "connect_request [0, 0, 0, 0, 0, 0, 0, 0, 0, 0, 0xff, 0xff, 0, 0, 0, 1] ''a.io'' 443 =
     Inr [5, 1, 0, 3, 4, 0x61, 0x2e, 0x69, 0x6f, 1, 0xbb] \<and>
   connect_request [0, 0, 0, 0, 0, 0, 0, 0, 0, 0, 0xff, 0xff, 0, 0, 0, 1]
       (replicate 256 (CHR ''a'')) 443 =
     Inl (ErrorsNew ''domain name out of max length'') \<and>
   connect \<lparr>incoming = [], wfails = [], wlog = [[5, 1, 0]]\<rparr>
       [0, 0, 0, 0, 0, 0, 0, 0, 0, 0, 0xff, 0xff, 0, 0, 0, 1] (replicate 256 (CHR ''a'')) 443 =
     (Some (ErrorsNew ''domain name out of max length''),
      \<lparr>incoming = [], wfails = [], wlog = [[5, 1, 0]]\<rparr>)"
  using connect_request_name
      [of "''a.io''" "[0, 0, 0, 0, 0, 0, 0, 0, 0, 0, 0xff, 0xff, 0, 0, 0, 1]" 443
          "\<lparr>incoming = [], wfails = [], wlog = [[5, 1, 0]]\<rparr>"]
    connect_request_name
      [of "replicate 256 (CHR ''a'')" "[0, 0, 0, 0, 0, 0, 0, 0, 0, 0, 0xff, 0xff, 0, 0, 0, 1]" 443
          "\<lparr>incoming = [], wfails = [], wlog = [[5, 1, 0]]\<rparr>"]
  by (simp add: bytes_def byte_len_def PutUint16_def)

end
